theory Spec2Isabelle
  imports Main "HOL-Library.AList" "HOL-Library.Multiset" "HOL-Library.Sublist"
begin

section \<open>Data model of the system pull\<close>

text \<open>
  The two tables are created with NVARCHAR columns for \<open>system_id\<close> and the nine
  descriptive attributes and DATETIME columns for \<open>timeUpdated\<close> and
  \<open>handover_date\<close>; every column is nullable. A canonical record and a table row are
  therefore the same fixed shape: ten optional strings and two optional datetimes.
  The only operations \<open>upsert_data\<close> applies to a datetime are its truth value (a
  datetime object is always true), \<open>isoformat()\<close> and passing it to the store, so a
  datetime is represented by the text that \<open>isoformat()\<close> returns.
  The columns IDX (identity) and archived_at (default GETDATE()) are filled by the server
  and are never read or written by the program; a table is the list of its rows in
  insertion order, each row holding the twelve columns the program handles.
\<close>

datatype datetime = DateTime (isoformat: string)

record sys_record =
  system_id :: "string option"
  project_id :: "string option"
  name :: "string option"
  description :: "string option"
  building_id :: "string option"
  building :: "string option"
  discipline_id :: "string option"
  discipline :: "string option"
  timeUpdated :: "datetime option"
  checklist_id :: "string option"
  checklist_name :: "string option"
  handover_date :: "datetime option"

text \<open>
  \<open>record.get(key)\<close>, used with the string-valued keys only (the two datetime values are
  read through their own fields); a key that is not in the dict gives None.
\<close>

definition get :: "sys_record \<Rightarrow> string \<Rightarrow> string option" where
  "get r key =
     (if key = ''system_id'' then system_id r
      else if key = ''project_id'' then project_id r
      else if key = ''name'' then name r
      else if key = ''description'' then description r
      else if key = ''building_id'' then building_id r
      else if key = ''building'' then building r
      else if key = ''discipline_id'' then discipline_id r
      else if key = ''discipline'' then discipline r
      else if key = ''checklist_id'' then checklist_id r
      else if key = ''checklist_name'' then checklist_name r
      else None)"

definition CSV_COLUMNS :: "string list" where
  "CSV_COLUMNS =
     [''timestamp'', ''action'', ''system_id'',
      ''old_project_id'', ''new_project_id'',
      ''old_name'', ''new_name'',
      ''old_description'', ''new_description'',
      ''old_building_id'', ''new_building_id'',
      ''old_building'', ''new_building'',
      ''old_discipline_id'', ''new_discipline_id'',
      ''old_discipline'', ''new_discipline'',
      ''old_timeUpdated'', ''new_timeUpdated'',
      ''old_checklist_id'', ''new_checklist_id'',
      ''old_checklist_name'', ''new_checklist_name'',
      ''old_handover_date'', ''new_handover_date'']"

text \<open>
  A change-log entry is a Python dict from column names to strings: an association list
  in insertion order, where assigning to a key that is present replaces its value
  (\<open>AList.update\<close>).
\<close>

type_synonym log_entry = "(string \<times> string) list"

definition dict_set :: "string \<Rightarrow> string \<Rightarrow> log_entry \<Rightarrow> log_entry" where
  "dict_set k v d = AList.update k v d"

section \<open>The store and its failures\<close>

text \<open>
  \<open>cursor.execute\<close> can raise for any of the four statements of \<open>upsert_data\<close>.
  Which executions fail is decided by the environment: every record is processed with the
  list of statements that fail for it, and with the reading of the clock used for the
  timestamp of its log entry. A failed statement leaves the tables as they were.
  The connection does not autocommit: writes are pending until \<open>connection.commit()\<close>,
  and nothing in \<open>upsert_data\<close> rolls back.
\<close>

datatype stmt = SelectMain | InsertMain | InsertHistory | UpdateMain

datatype error = StoreError stmt

record env =
  now :: string
  failing :: "stmt list"

record upsert_state =
  main_table :: "sys_record list"
  history_table :: "sys_record list"
  committed_main :: "sys_record list"
  committed_history :: "sys_record list"
  rows_added :: nat
  rows_updated :: nat
  historical_count :: nat
  changes_log :: "log_entry list"

definition fails :: "env \<Rightarrow> stmt \<Rightarrow> bool" where
  "fails e st = (st \<in> set (failing e))"

text \<open>SELECT ... WHERE system_id = ? followed by \<open>fetchone()\<close>: the first matching row.\<close>

definition select_row :: "string \<Rightarrow> sys_record list \<Rightarrow> sys_record option" where
  "select_row sid rows = find (\<lambda>r. system_id r = Some sid) rows"

text \<open>UPDATE ... SET (eleven columns) WHERE system_id = ?: every matching row.\<close>

definition update_rows :: "string \<Rightarrow> sys_record \<Rightarrow> sys_record list \<Rightarrow> sys_record list" where
  "update_rows sid record rows =
     map (\<lambda>r. if system_id r = Some sid
               then r\<lparr>project_id := project_id record, name := name record,
                      description := description record, building_id := building_id record,
                      building := building record, discipline_id := discipline_id record,
                      discipline := discipline record, timeUpdated := timeUpdated record,
                      checklist_id := checklist_id record,
                      checklist_name := checklist_name record,
                      handover_date := handover_date record\<rparr>
               else r) rows"

text \<open>The row of an INSERT: the given system_id and the record's eleven other values.\<close>

definition insert_row :: "string option \<Rightarrow> sys_record \<Rightarrow> sys_record" where
  "insert_row sid record =
     \<lparr>system_id = sid, project_id = project_id record, name = name record,
      description = description record, building_id = building_id record,
      building = building record, discipline_id = discipline_id record,
      discipline = discipline record, timeUpdated = timeUpdated record,
      checklist_id = checklist_id record, checklist_name = checklist_name record,
      handover_date = handover_date record\<rparr>"

definition commit :: "upsert_state \<Rightarrow> upsert_state" where
  "commit s = s\<lparr>committed_main := main_table s, committed_history := history_table s\<rparr>"

section \<open>upsert_data\<close>

definition str_or_empty :: "string option \<Rightarrow> string" where
  "str_or_empty v = (case v of None \<Rightarrow> '''' | Some s \<Rightarrow> s)"

definition iso_or_empty :: "datetime option \<Rightarrow> string" where
  "iso_or_empty v = (case v of None \<Rightarrow> '''' | Some d \<Rightarrow> isoformat d)"

definition insert_entry :: "string \<Rightarrow> string \<Rightarrow> log_entry" where
  "insert_entry ts sid =
     fold (\<lambda>col d. dict_set col '''' d)
       (filter (\<lambda>col. col \<notin> set [''timestamp'', ''action'', ''system_id'']) CSV_COLUMNS)
       [(''timestamp'', ts), (''action'', ''insert''), (''system_id'', sid)]"

definition comparable_keys :: "string list" where
  "comparable_keys =
     [''project_id'', ''name'', ''description'', ''building_id'', ''building'',
      ''discipline_id'', ''discipline'', ''checklist_id'', ''checklist_name'']"

text \<open>One turn of the loop over the nine keys: the flag and the two entries of the dict.\<close>

definition compare_key ::
  "sys_record \<Rightarrow> sys_record \<Rightarrow> string \<Rightarrow> bool \<times> log_entry \<Rightarrow> bool \<times> log_entry" where
  "compare_key record existing_record key acc =
     (let new_val = get record key; old_val = get existing_record key in
      if new_val \<noteq> old_val
      then (True, dict_set (''new_'' @ key) (str_or_empty new_val)
                    (dict_set (''old_'' @ key) (str_or_empty old_val) (snd acc)))
      else (fst acc, dict_set (''new_'' @ key) (str_or_empty new_val)
                       (dict_set (''old_'' @ key) (str_or_empty old_val) (snd acc))))"

definition compare_records ::
  "string \<Rightarrow> string \<Rightarrow> sys_record \<Rightarrow> sys_record \<Rightarrow> bool \<times> log_entry" where
  "compare_records ts sid record existing_record =
     (let (record_changed, d) =
            fold (compare_key record existing_record) comparable_keys
              (False, [(''timestamp'', ts), (''action'', ''update''), (''system_id'', sid)]);
          d = dict_set ''old_handover_date'' (iso_or_empty (handover_date existing_record)) d;
          d = dict_set ''new_handover_date'' (iso_or_empty (handover_date record)) d;
          d = dict_set ''old_timeUpdated'' (iso_or_empty (timeUpdated existing_record)) d;
          d = dict_set ''new_timeUpdated'' (iso_or_empty (timeUpdated record)) d
      in (record_changed, d))"

text \<open>
  The body of the \<open>try\<close>: the error raised, if any, and the state at that point.
  Assignments made before a statement raises are kept, as in the source.
\<close>

definition insert_new :: "env \<Rightarrow> string option \<Rightarrow> string \<Rightarrow> sys_record \<Rightarrow> upsert_state
    \<Rightarrow> error option \<times> upsert_state" where
  "insert_new e sid subject record s =
     (if fails e InsertMain then (Some (StoreError InsertMain), s)
      else (None, s\<lparr>main_table := main_table s @ [insert_row sid record],
                     rows_added := rows_added s + 1,
                     changes_log := changes_log s @ [insert_entry (now e) subject]\<rparr>))"

definition archive_and_update :: "env \<Rightarrow> string \<Rightarrow> sys_record \<Rightarrow> sys_record \<Rightarrow> log_entry
    \<Rightarrow> upsert_state \<Rightarrow> error option \<times> upsert_state" where
  "archive_and_update e sid record existing_record change_details s =
     (if fails e InsertHistory then (Some (StoreError InsertHistory), s)
      else
        let s1 = s\<lparr>history_table := history_table s @ [existing_record],
                    historical_count := historical_count s + 1\<rparr>
        in if fails e UpdateMain then (Some (StoreError UpdateMain), s1)
           else (None, s1\<lparr>main_table := update_rows sid record (main_table s1),
                           rows_updated := rows_updated s1 + 1,
                           changes_log := changes_log s1 @ [change_details]\<rparr>))"

definition try_body :: "env \<Rightarrow> sys_record \<Rightarrow> upsert_state \<Rightarrow> error option \<times> upsert_state" where
  "try_body e record s =
     (case system_id record of
        None \<Rightarrow> insert_new e None ''None'' record s
      | Some sid \<Rightarrow>
          if fails e SelectMain then (Some (StoreError SelectMain), s)
          else (case select_row sid (main_table s) of
                  Some existing_record \<Rightarrow>
                    let (record_changed, change_details) =
                          compare_records (now e) sid record existing_record
                    in if record_changed
                       then archive_and_update e sid record existing_record change_details s
                       else (None, s)
                | None \<Rightarrow> insert_new e (Some sid) sid record s))"

text \<open>One record: an exception skips the commit (\<open>continue\<close>), success commits.\<close>

definition process_record :: "env \<times> sys_record \<Rightarrow> upsert_state \<Rightarrow> upsert_state" where
  "process_record item s =
     (case try_body (fst item) (snd item) s of
        (Some err, s') \<Rightarrow> s'
      | (None, s') \<Rightarrow> commit s')"

fun upsert_loop :: "(env \<times> sys_record) list \<Rightarrow> upsert_state \<Rightarrow> upsert_state" where
  "upsert_loop [] s = s"
| "upsert_loop (item # data) s = upsert_loop data (process_record item s)"

text \<open>
  The state at entry: the connection sees the committed tables, the counters are zero
  and the log is empty. After the loop the function writes the log to the CSV file and
  returns the three counters; both are read off the final state.
\<close>

definition init_state :: "sys_record list \<Rightarrow> sys_record list \<Rightarrow> upsert_state" where
  "init_state main_rows history_rows =
     \<lparr>main_table = main_rows, history_table = history_rows,
      committed_main = main_rows, committed_history = history_rows,
      rows_added = 0, rows_updated = 0, historical_count = 0, changes_log = []\<rparr>"

definition upsert_data ::
  "sys_record list \<Rightarrow> sys_record list \<Rightarrow> (env \<times> sys_record) list \<Rightarrow> upsert_state" where
  "upsert_data main_rows history_rows data = upsert_loop data (init_state main_rows history_rows)"

text \<open>The change trigger: some comparable attribute differs.\<close>

definition changed :: "sys_record \<Rightarrow> sys_record \<Rightarrow> bool" where
  "changed record existing_record =
     (\<exists>key \<in> set comparable_keys. get record key \<noteq> get existing_record key)"

section \<open>Configuration check and entry point\<close>

text \<open>
  The module reads six variables of the process environment (after \<open>load_dotenv\<close>)
  and raises ValueError when its check finds one missing. \<open>os.getenv\<close> gives None for
  an unset variable; \<open>not x\<close> is true for None and for the empty string.
\<close>

type_synonym environ = "string \<Rightarrow> string option"

record sql_server_config =
  server :: "string option"
  database :: "string option"
  username :: "string option"
  password :: "string option"

definition SQL_SERVER_CONFIG :: "environ \<Rightarrow> sql_server_config" where
  "SQL_SERVER_CONFIG environ =
     \<lparr>server = environ ''SNAME'', database = environ ''DBASE'',
      username = environ ''UNAME'', password = environ ''PASS''\<rparr>"

definition py_not :: "string option \<Rightarrow> bool" where
  "py_not v = (v = None \<or> v = Some '''')"

definition missing_environment :: "environ \<Rightarrow> bool" where
  "missing_environment environ =
     (py_not (environ ''IDENTIFIER'') \<or> py_not (environ ''SECRET'')
      \<or> py_not (server (SQL_SERVER_CONFIG environ))
      \<or> py_not (database (SQL_SERVER_CONFIG environ)))"

datatype exn = ValueError string

text \<open>\<open>needle in haystack\<close> on strings.\<close>

fun contains :: "string \<Rightarrow> string \<Rightarrow> bool" where
  "contains needle [] = (needle = [])"
| "contains needle (c # cs) = (prefix needle (c # cs) \<or> contains needle cs)"

text \<open>
  The collaborators of \<open>main\<close> are its parameters: what \<open>get_project_list\<close> returns
  (the empty list when the request fails), the canonical records that
  \<open>fetch_data_for_projects\<close> collects for one project id, whether the store accepts the
  connection, the two tables (None while a table does not exist), and the clock reading
  and failing statements for the i-th record of the batch. Every call to a collaborator is
  recorded as an event. \<open>connection.close()\<close> discards what was not committed.
\<close>

record project =
  p_project_id :: string
  p_name :: string

record world =
  project_list :: "project list"
  systems_of :: "string \<Rightarrow> sys_record list"
  db_connects :: bool
  db_main :: "sys_record list option"
  db_history :: "sys_record list option"
  record_env :: "nat \<Rightarrow> env"

datatype event =
  GetProjectList | FetchSystems string | ConnectDb | EnsureTable string
  | Upsert "sys_record list" | CloseDb

definition select_project_ids :: "project list \<Rightarrow> string list" where
  "select_project_ids projects =
     map p_project_id (filter (\<lambda>proj. contains ''GFTX'' (p_name proj)) projects)"

definition main ::
  "world \<Rightarrow> event list \<times> sys_record list option \<times> sys_record list option" where
  "main w =
     (let projects = project_list w in
      if projects = [] then ([GetProjectList], db_main w, db_history w)
      else
        let project_ids = select_project_ids projects;
            system_data = concat (map (systems_of w) project_ids);
            fetched = GetProjectList # map FetchSystems project_ids
        in if system_data = [] then (fetched, db_main w, db_history w)
           else if \<not> db_connects w then (fetched @ [ConnectDb], db_main w, db_history w)
           else
             let main_rows = (case db_main w of None \<Rightarrow> [] | Some rows \<Rightarrow> rows);
                 history_rows = (case db_history w of None \<Rightarrow> [] | Some rows \<Rightarrow> rows);
                 s = upsert_data main_rows history_rows
                       (zip (map (record_env w) [0..<length system_data]) system_data)
             in (fetched @ [ConnectDb, EnsureTable ''GFTX_CXALLOY_System_DATA'',
                            EnsureTable ''GFTX_CXALLOY_System_DATA_History'',
                            Upsert system_data, CloseDb],
                 Some (committed_main s), Some (committed_history s)))"

text \<open>The script: the module-level check, then \<open>main()\<close>.\<close>

definition program ::
  "environ \<Rightarrow> world \<Rightarrow> exn option \<times> event list \<times> sys_record list option \<times> sys_record list option" where
  "program environ w =
     (if missing_environment environ
      then (Some (ValueError ''Missing environment variables''), [], db_main w, db_history w)
      else (None, main w))"

section \<open>Reading the change log\<close>

text \<open>The number of entries of a log with a given action.\<close>

definition count_action :: "string \<Rightarrow> log_entry list \<Rightarrow> nat" where
  "count_action a log = length (filter (\<lambda>d. map_of d ''action'' = Some a) log)"

text \<open>
  The eleven tracked fields of a record with their string values: a null value is the
  empty string, a string is itself, a datetime is its ISO text.
\<close>

definition tracked_fields :: "sys_record \<Rightarrow> (string \<times> string) list" where
  "tracked_fields r =
     [(''project_id'', case project_id r of None \<Rightarrow> '''' | Some v \<Rightarrow> v),
      (''name'', case name r of None \<Rightarrow> '''' | Some v \<Rightarrow> v),
      (''description'', case description r of None \<Rightarrow> '''' | Some v \<Rightarrow> v),
      (''building_id'', case building_id r of None \<Rightarrow> '''' | Some v \<Rightarrow> v),
      (''building'', case building r of None \<Rightarrow> '''' | Some v \<Rightarrow> v),
      (''discipline_id'', case discipline_id r of None \<Rightarrow> '''' | Some v \<Rightarrow> v),
      (''discipline'', case discipline r of None \<Rightarrow> '''' | Some v \<Rightarrow> v),
      (''checklist_id'', case checklist_id r of None \<Rightarrow> '''' | Some v \<Rightarrow> v),
      (''checklist_name'', case checklist_name r of None \<Rightarrow> '''' | Some v \<Rightarrow> v),
      (''timeUpdated'', case timeUpdated r of None \<Rightarrow> '''' | Some d \<Rightarrow> isoformat d),
      (''handover_date'', case handover_date r of None \<Rightarrow> '''' | Some d \<Rightarrow> isoformat d)]"

text \<open>
  An entry is the complete update entry of a fetched record \<open>r\<close> and a persisted row
  \<open>x\<close>: it has exactly the 25 CSV columns, its subject is the system_id of both, and for
  each tracked field the old column holds the value of \<open>x\<close> and the new column the
  value of \<open>r\<close>.
\<close>

definition update_entry_of :: "env \<Rightarrow> sys_record \<Rightarrow> sys_record \<Rightarrow> log_entry \<Rightarrow> bool" where
  "update_entry_of e r x entry \<longleftrightarrow>
     set (map fst entry) = set CSV_COLUMNS \<and> distinct (map fst entry) \<and>
     map_of entry ''timestamp'' = Some (now e) \<and>
     (\<exists>sid. system_id r = Some sid \<and> system_id x = Some sid \<and>
            map_of entry ''system_id'' = Some sid) \<and>
     (\<forall>(f, v) \<in> set (tracked_fields x). map_of entry (''old_'' @ f) = Some v) \<and>
     (\<forall>(f, v) \<in> set (tracked_fields r). map_of entry (''new_'' @ f) = Some v)"

text \<open>Null-safe equality of two records on the nine comparable attributes.\<close>

definition same_comparable :: "sys_record \<Rightarrow> sys_record \<Rightarrow> bool" where
  "same_comparable r x \<longleftrightarrow>
     project_id r = project_id x \<and> name r = name x \<and> description r = description x \<and>
     building_id r = building_id x \<and> building r = building x \<and>
     discipline_id r = discipline_id x \<and> discipline r = discipline x \<and>
     checklist_id r = checklist_id x \<and> checklist_name r = checklist_name x"

section \<open>The effect of one record, as seen by the other records\<close>




text \<open>What the UPDATE of \<open>update_rows\<close> does to a single row.\<close>

definition overwrite :: "string \<Rightarrow> sys_record \<Rightarrow> sys_record \<Rightarrow> sys_record" where
  "overwrite sid r y = hd (update_rows sid r [y])"







section \<open>Example inputs\<close>

definition row_S1 :: sys_record where
  "row_S1 =
     \<lparr>system_id = Some ''S1'', project_id = Some ''P1'', name = Some ''A'',
      description = None, building_id = None, building = Some ''B1'',
      discipline_id = None, discipline = None,
      timeUpdated = Some (DateTime ''2024-01-01T00:00:00''),
      checklist_id = None, checklist_name = None, handover_date = None\<rparr>"

definition ok_env :: env where
  "ok_env = \<lparr>now = ''2024-03-01T12:00:00'', failing = []\<rparr>"

definition row_S2 :: sys_record where
  "row_S2 =
     \<lparr>system_id = Some ''S2'', project_id = Some ''P1'', name = Some ''Pump'',
      description = Some ''Chilled water pump'', building_id = None, building = None,
      discipline_id = None, discipline = None,
      timeUpdated = Some (DateTime ''2024-03-01T11:59:00''),
      checklist_id = None, checklist_name = None, handover_date = None\<rparr>"

definition row_no_id :: sys_record where
  "row_no_id =
     \<lparr>system_id = None, project_id = Some ''P1'', name = Some ''Valve'',
      description = None, building_id = None, building = None,
      discipline_id = None, discipline = None,
      timeUpdated = Some (DateTime ''2024-03-01T11:59:00''),
      checklist_id = None, checklist_name = None, handover_date = None\<rparr>"

definition update_fails_env :: env where
  "update_fails_env = \<lparr>now = ''2024-03-01T12:00:01'', failing = [UpdateMain]\<rparr>"

definition batch_failed_update :: "(env \<times> sys_record) list" where
  "batch_failed_update = [(update_fails_env, row_S1\<lparr>name := Some ''A2''\<rparr>), (ok_env, row_S2)]"

definition batch_update :: "(env \<times> sys_record) list" where
  "batch_update = [(ok_env, row_S1\<lparr>name := Some ''A2''\<rparr>)]"

definition environ_no_login :: environ where
  "environ_no_login =
     map_of [(''IDENTIFIER'', ''id''), (''SECRET'', ''key''),
             (''SNAME'', ''sqlhost''), (''DBASE'', ''cx'')]"

definition world_two_projects :: world where
  "world_two_projects =
     \<lparr>project_list = [\<lparr>p_project_id = ''101'', p_name = ''GFTX Austin''\<rparr>,
                      \<lparr>p_project_id = ''202'', p_name = ''Berlin''\<rparr>],
      systems_of = (\<lambda>pid. if pid = ''101'' then [row_S1] else [row_S2]),
      db_connects = False, db_main = None, db_history = None,
      record_env = (\<lambda>i. ok_env)\<rparr>"



section \<open>The comparison loop\<close>

lemma fold_compare_key_fst:
  "fst (fold (compare_key r x) keys (b, d)) = (b \<or> (\<exists>key \<in> set keys. get r key \<noteq> get x key))"
  by (induction keys arbitrary: b d) (auto simp: compare_key_def Let_def)

lemma compare_records_fst: "fst (compare_records ts sid r x) = changed r x"
  by (simp add: compare_records_def changed_def split_beta Let_def fold_compare_key_fst)

lemma changed_iff:
  "changed r x \<longleftrightarrow>
     \<not> (project_id r = project_id x \<and> name r = name x \<and> description r = description x \<and>
        building_id r = building_id x \<and> building r = building x \<and>
        discipline_id r = discipline_id x \<and> discipline r = discipline x \<and>
        checklist_id r = checklist_id x \<and> checklist_name r = checklist_name x)"
  by (simp add: changed_def comparable_keys_def get_def)

lemma try_body_unchanged:
  assumes "system_id r = Some sid" and "select_row sid (main_table s) = Some x"
    and "\<not> changed r x"
  shows "snd (try_body e r s) = s"
  using assms compare_records_fst[of "now e" sid r x]
  by (auto simp: try_body_def split_beta Let_def)

lemma select_row_Some:
  "select_row sid rows = Some x \<Longrightarrow> system_id x = Some sid \<and> x \<in> set rows"
  by (auto simp: select_row_def find_Some_iff)

lemma insert_row_self: "system_id r = sid \<Longrightarrow> insert_row sid r = r"
  by (simp add: insert_row_def)

lemma update_rows_eq:
  "system_id r = Some sid \<Longrightarrow>
     update_rows sid r rows = map (\<lambda>x. if system_id x = Some sid then r else x) rows"
  by (auto simp: update_rows_def)

lemma insert_entry_eq:
  "insert_entry ts sid =
     [(''timestamp'', ts), (''action'', ''insert''), (''system_id'', sid),
      (''old_project_id'', ''''), (''new_project_id'', ''''),
      (''old_name'', ''''), (''new_name'', ''''),
      (''old_description'', ''''), (''new_description'', ''''),
      (''old_building_id'', ''''), (''new_building_id'', ''''),
      (''old_building'', ''''), (''new_building'', ''''),
      (''old_discipline_id'', ''''), (''new_discipline_id'', ''''),
      (''old_discipline'', ''''), (''new_discipline'', ''''),
      (''old_timeUpdated'', ''''), (''new_timeUpdated'', ''''),
      (''old_checklist_id'', ''''), (''new_checklist_id'', ''''),
      (''old_checklist_name'', ''''), (''new_checklist_name'', ''''),
      (''old_handover_date'', ''''), (''new_handover_date'', '''')]"
  by (simp add: insert_entry_def CSV_COLUMNS_def dict_set_def)

lemma fold_compare_key_snd:
  "snd (fold (compare_key r x) keys (b, d)) =
     fold (\<lambda>key d. dict_set (''new_'' @ key) (str_or_empty (get r key))
                     (dict_set (''old_'' @ key) (str_or_empty (get x key)) d)) keys d"
  by (induction keys arbitrary: b d) (auto simp: compare_key_def Let_def)

lemma compare_records_snd:
  "snd (compare_records ts sid r x) =
     [(''timestamp'', ts), (''action'', ''update''), (''system_id'', sid),
      (''old_project_id'', str_or_empty (project_id x)),
      (''new_project_id'', str_or_empty (project_id r)),
      (''old_name'', str_or_empty (name x)), (''new_name'', str_or_empty (name r)),
      (''old_description'', str_or_empty (description x)),
      (''new_description'', str_or_empty (description r)),
      (''old_building_id'', str_or_empty (building_id x)),
      (''new_building_id'', str_or_empty (building_id r)),
      (''old_building'', str_or_empty (building x)),
      (''new_building'', str_or_empty (building r)),
      (''old_discipline_id'', str_or_empty (discipline_id x)),
      (''new_discipline_id'', str_or_empty (discipline_id r)),
      (''old_discipline'', str_or_empty (discipline x)),
      (''new_discipline'', str_or_empty (discipline r)),
      (''old_checklist_id'', str_or_empty (checklist_id x)),
      (''new_checklist_id'', str_or_empty (checklist_id r)),
      (''old_checklist_name'', str_or_empty (checklist_name x)),
      (''new_checklist_name'', str_or_empty (checklist_name r)),
      (''old_handover_date'', iso_or_empty (handover_date x)),
      (''new_handover_date'', iso_or_empty (handover_date r)),
      (''old_timeUpdated'', iso_or_empty (timeUpdated x)),
      (''new_timeUpdated'', iso_or_empty (timeUpdated r))]"
  unfolding compare_records_def split_beta Let_def snd_conv fold_compare_key_snd
  by (simp add: comparable_keys_def dict_set_def get_def)


lemma try_body_insert:
  assumes "system_id r = None \<or> (\<exists>sid. system_id r = Some sid \<and> select_row sid (main_table s) = None)"
    and "\<not> fails e SelectMain" and "\<not> fails e InsertMain"
  shows "try_body e r s =
     (None, s\<lparr>main_table := main_table s @ [r], rows_added := rows_added s + 1,
              changes_log := changes_log s @
                [insert_entry (now e) (case system_id r of None \<Rightarrow> ''None'' | Some sid \<Rightarrow> sid)]\<rparr>)"
  using assms by (auto simp: try_body_def insert_new_def insert_row_self)

lemma try_body_update:
  assumes "system_id r = Some sid" and "select_row sid (main_table s) = Some x"
    and "changed r x"
    and "\<not> fails e SelectMain" and "\<not> fails e InsertHistory" and "\<not> fails e UpdateMain"
  shows "try_body e r s =
     (None, s\<lparr>history_table := history_table s @ [x],
              historical_count := historical_count s + 1,
              main_table := map (\<lambda>y. if system_id y = Some sid then r else y) (main_table s),
              rows_updated := rows_updated s + 1,
              changes_log := changes_log s @ [snd (compare_records (now e) sid r x)]\<rparr>)"
  using assms compare_records_fst[of "now e" sid r x]
  by (simp add: try_body_def archive_and_update_def split_beta Let_def update_rows_eq)

lemma process_record_noop:
  assumes "system_id r = Some sid" and "select_row sid (main_table s) = Some x"
    and "\<not> changed r x"
  shows "main_table (process_record (e, r) s) = main_table s
       \<and> history_table (process_record (e, r) s) = history_table s
       \<and> changes_log (process_record (e, r) s) = changes_log s
       \<and> rows_added (process_record (e, r) s) = rows_added s
       \<and> rows_updated (process_record (e, r) s) = rows_updated s
       \<and> historical_count (process_record (e, r) s) = historical_count s"
proof -
  obtain err where "try_body e r s = (err, s)"
    using try_body_unchanged[OF assms, of e] by (cases "try_body e r s") simp
  then show ?thesis
    by (cases err) (simp_all add: process_record_def commit_def)
qed

lemma process_record_cases:
  "(changes_log (process_record (e, r) s) = changes_log s
      \<and> rows_added (process_record (e, r) s) = rows_added s
      \<and> rows_updated (process_record (e, r) s) = rows_updated s)
   \<or> (\<exists>subject. changes_log (process_record (e, r) s) = changes_log s @ [insert_entry (now e) subject]
      \<and> rows_added (process_record (e, r) s) = rows_added s + 1
      \<and> rows_updated (process_record (e, r) s) = rows_updated s)
   \<or> (\<exists>sid x. system_id r = Some sid \<and> select_row sid (main_table s) = Some x
      \<and> changes_log (process_record (e, r) s) =
          changes_log s @ [snd (compare_records (now e) sid r x)]
      \<and> rows_added (process_record (e, r) s) = rows_added s
      \<and> rows_updated (process_record (e, r) s) = rows_updated s + 1)"
  by (auto simp: process_record_def try_body_def insert_new_def archive_and_update_def
        commit_def split_beta Let_def split: option.splits)

lemma insert_entry_action: "map_of (insert_entry ts subject) ''action'' = Some ''insert''"
  by (simp add: insert_entry_eq)

lemma compare_records_action:
  "map_of (snd (compare_records ts sid r x)) ''action'' = Some ''update''"
  by (simp add: compare_records_snd)

lemma count_action_append:
  "count_action a (log @ [d]) =
     count_action a log + (if map_of d ''action'' = Some a then 1 else 0)"
  by (simp add: count_action_def)

lemma process_record_counts:
  assumes "rows_added s = count_action ''insert'' (changes_log s)"
    and "rows_updated s = count_action ''update'' (changes_log s)"
  shows "rows_added (process_record (e, r) s) =
           count_action ''insert'' (changes_log (process_record (e, r) s))
       \<and> rows_updated (process_record (e, r) s) =
           count_action ''update'' (changes_log (process_record (e, r) s))"
  using process_record_cases[of e r s] assms
  by (elim disjE exE conjE)
     (simp_all add: count_action_append insert_entry_action compare_records_action)

lemma upsert_loop_counts:
  "rows_added s = count_action ''insert'' (changes_log s) \<Longrightarrow>
   rows_updated s = count_action ''update'' (changes_log s) \<Longrightarrow>
   rows_added (upsert_loop data s) = count_action ''insert'' (changes_log (upsert_loop data s))
   \<and> rows_updated (upsert_loop data s) = count_action ''update'' (changes_log (upsert_loop data s))"
proof (induction data arbitrary: s)
  case Nil
  then show ?case by simp
next
  case (Cons item data)
  obtain e r where item: "item = (e, r)" by (cases item)
  show ?case
    using Cons.IH[of "process_record item s"] process_record_counts[OF Cons.prems, of e r]
    by (simp add: item)
qed

lemma compare_records_columns:
  "set (map fst (snd (compare_records ts sid r x))) = set CSV_COLUMNS
   \<and> distinct (map fst (snd (compare_records ts sid r x)))"
  by (simp add: compare_records_snd CSV_COLUMNS_def insert_commute)

lemma compare_records_complete:
  assumes "system_id r = Some sid" and "system_id x = Some sid"
  shows "update_entry_of e r x (snd (compare_records (now e) sid r x))"
  unfolding update_entry_of_def
  using assms compare_records_columns[of "now e" sid r x]
  by (simp add: compare_records_snd tracked_fields_def str_or_empty_def iso_or_empty_def)

lemma upsert_loop_append: "upsert_loop (xs @ ys) s = upsert_loop ys (upsert_loop xs s)"
  by (induction xs arbitrary: s) simp_all

lemma upsert_loop_update_entries:
  assumes "\<forall>entry \<in> set (changes_log (upsert_loop pre s0)).
             map_of entry ''action'' = Some ''update'' \<longrightarrow>
             (\<exists>p e r q sid x. pre @ rest = p @ (e, r) # q \<and> system_id r = Some sid
                \<and> select_row sid (main_table (upsert_loop p s0)) = Some x
                \<and> update_entry_of e r x entry)"
  shows "\<forall>entry \<in> set (changes_log (upsert_loop (pre @ rest) s0)).
           map_of entry ''action'' = Some ''update'' \<longrightarrow>
             (\<exists>p e r q sid x. pre @ rest = p @ (e, r) # q \<and> system_id r = Some sid
                \<and> select_row sid (main_table (upsert_loop p s0)) = Some x
                \<and> update_entry_of e r x entry)"
  using assms
proof (induction rest arbitrary: pre)
  case Nil
  then show ?case by simp
next
  case (Cons item rest)
  obtain e r where item: "item = (e, r)" by (cases item)
  let ?s = "upsert_loop pre s0"
  let ?Q = "\<lambda>entry. \<exists>p e r q sid x. pre @ item # rest = p @ (e, r) # q \<and> system_id r = Some sid
                \<and> select_row sid (main_table (upsert_loop p s0)) = Some x
                \<and> update_entry_of e r x entry"
  have old: "\<forall>entry \<in> set (changes_log ?s). map_of entry ''action'' = Some ''update'' \<longrightarrow> ?Q entry"
    using Cons.prems by simp
  have step: "\<forall>entry \<in> set (changes_log (process_record (e, r) ?s)).
      map_of entry ''action'' = Some ''update'' \<longrightarrow> ?Q entry"
    using process_record_cases[of e r ?s]
  proof (elim disjE exE conjE)
    assume "changes_log (process_record (e, r) ?s) = changes_log ?s"
    then show ?thesis using old by simp
  next
    fix subject
    assume "changes_log (process_record (e, r) ?s) = changes_log ?s @ [insert_entry (now e) subject]"
    then show ?thesis using old by (simp add: insert_entry_action)
  next
    fix sid x
    assume sid: "system_id r = Some sid" and sel: "select_row sid (main_table ?s) = Some x"
      and log: "changes_log (process_record (e, r) ?s) =
                  changes_log ?s @ [snd (compare_records (now e) sid r x)]"
    have "update_entry_of e r x (snd (compare_records (now e) sid r x))"
      using sid select_row_Some[OF sel] by (simp add: compare_records_complete)
    then have "?Q (snd (compare_records (now e) sid r x))"
      using sid sel item by blast
    then show ?thesis using old log by simp
  qed
  have "\<forall>entry \<in> set (changes_log (upsert_loop ((pre @ [item]) @ rest) s0)).
           map_of entry ''action'' = Some ''update'' \<longrightarrow>
             (\<exists>p e r q sid x. (pre @ [item]) @ rest = p @ (e, r) # q \<and> system_id r = Some sid
                \<and> select_row sid (main_table (upsert_loop p s0)) = Some x
                \<and> update_entry_of e r x entry)"
  proof (rule Cons.IH)
    show "\<forall>entry \<in> set (changes_log (upsert_loop (pre @ [item]) s0)).
           map_of entry ''action'' = Some ''update'' \<longrightarrow>
             (\<exists>p e r q sid x. (pre @ [item]) @ rest = p @ (e, r) # q \<and> system_id r = Some sid
                \<and> select_row sid (main_table (upsert_loop p s0)) = Some x
                \<and> update_entry_of e r x entry)"
      using step by (simp add: upsert_loop_append item)
  qed
  then show ?case by simp
qed

lemmas run_defs = upsert_data_def init_state_def process_record_def try_body_def insert_new_def
  archive_and_update_def commit_def fails_def select_row_def update_rows_def insert_row_def
  split_beta Let_def compare_records_fst changed_iff compare_records_snd

lemma run_failed_update:
  "upsert_data [row_S1] [] batch_failed_update =
     \<lparr>main_table = [row_S1, row_S2], history_table = [row_S1],
      committed_main = [row_S1, row_S2], committed_history = [row_S1],
      rows_added = 1, rows_updated = 0, historical_count = 1,
      changes_log = [insert_entry ''2024-03-01T12:00:00'' ''S2'']\<rparr>"
  by (simp add: batch_failed_update_def run_defs row_S1_def row_S2_def ok_env_def
        update_fails_env_def)

lemma run_update:
  "upsert_data [row_S1] [] batch_update =
     \<lparr>main_table = [row_S1\<lparr>name := Some ''A2''\<rparr>], history_table = [row_S1],
      committed_main = [row_S1\<lparr>name := Some ''A2''\<rparr>], committed_history = [row_S1],
      rows_added = 0, rows_updated = 1, historical_count = 1,
      changes_log = [snd (compare_records ''2024-03-01T12:00:00'' ''S1''
                       (row_S1\<lparr>name := Some ''A2''\<rparr>) row_S1)]\<rparr>"
  by (simp add: batch_update_def run_defs row_S1_def ok_env_def)

lemma upsert_loop_noop:
  assumes "\<forall>(e, r) \<in> set data. \<exists>sid x. system_id r = Some sid
             \<and> select_row sid (main_table s) = Some x \<and> same_comparable r x"
  shows "main_table (upsert_loop data s) = main_table s
       \<and> history_table (upsert_loop data s) = history_table s
       \<and> changes_log (upsert_loop data s) = changes_log s
       \<and> rows_added (upsert_loop data s) = rows_added s
       \<and> rows_updated (upsert_loop data s) = rows_updated s
       \<and> historical_count (upsert_loop data s) = historical_count s"
  using assms
proof (induction data arbitrary: s)
  case Nil
  then show ?case by simp
next
  case (Cons item data)
  obtain e r where item: "item = (e, r)" by (cases item)
  obtain sid x where sid: "system_id r = Some sid"
    and sel: "select_row sid (main_table s) = Some x" and same: "same_comparable r x"
    using Cons.prems item by auto
  have "\<not> changed r x"
    using same by (simp add: changed_iff same_comparable_def)
  note step = process_record_noop[OF sid sel this, of e]
  have "\<forall>(e, r) \<in> set data. \<exists>sid x. system_id r = Some sid
          \<and> select_row sid (main_table (process_record item s)) = Some x \<and> same_comparable r x"
    using Cons.prems step by (simp add: item)
  from Cons.IH[OF this] step show ?case
    by (simp add: item)
qed

lemma contains_iff: "contains needle s \<longleftrightarrow> (\<exists>ps ss. s = ps @ needle @ ss)"
proof -
  have "contains needle s = sublist needle s"
    by (induction s) (simp_all add: sublist_Cons_right)
  then show ?thesis by (simp add: sublist_def)
qed

lemma select_project_ids_iff:
  "pid \<in> set (select_project_ids projects) \<longleftrightarrow>
     (\<exists>proj \<in> set projects. p_project_id proj = pid \<and> (\<exists>ps ss. p_name proj = ps @ ''GFTX'' @ ss))"
  by (auto simp: select_project_ids_def contains_iff)

lemma select_project_ids_eq:
  "select_project_ids projects =
     map p_project_id (filter (\<lambda>proj. \<exists>ps ss. p_name proj = ps @ ''GFTX'' @ ss) projects)"
  by (simp add: select_project_ids_def contains_iff)

lemma overwrite_id [simp]: "system_id (overwrite sid r y) = system_id y"
  by (simp add: overwrite_def update_rows_def)






















section \<open>Change-trigger isolation\<close>

text \<open>
  C1. A record with a non-null system_id whose persisted row (the row the SELECT returns)
  agrees with it on the nine comparable attributes is a NO-OP, whatever its handover_date
  and timeUpdated are and whether or not the SELECT itself fails: the body of the
  \<open>try\<close> leaves the state as it was, so the main table, the history table, the change
  log and the three counters are the same after the record as before it.
\<close>

theorem C1_change_trigger_isolation:
  assumes "system_id r = Some sid"
    and "select_row sid (main_table s) = Some x"
    and "project_id r = project_id x" and "name r = name x"
    and "description r = description x" and "building_id r = building_id x"
    and "building r = building x" and "discipline_id r = discipline_id x"
    and "discipline r = discipline x" and "checklist_id r = checklist_id x"
    and "checklist_name r = checklist_name x"
  shows "snd (try_body e r s) = s
       \<and> main_table (process_record (e, r) s) = main_table s
       \<and> history_table (process_record (e, r) s) = history_table s
       \<and> changes_log (process_record (e, r) s) = changes_log s
       \<and> rows_added (process_record (e, r) s) = rows_added s
       \<and> rows_updated (process_record (e, r) s) = rows_updated s
       \<and> historical_count (process_record (e, r) s) = historical_count s"
proof -
  have "\<not> changed r x"
    using assms by (simp add: changed_iff)
  then have unchanged: "snd (try_body e r s) = s"
    using assms(1,2) by (rule try_body_unchanged[rotated 2])
  obtain err where tb: "try_body e r s = (err, s)"
    using unchanged by (cases "try_body e r s") simp
  show ?thesis
    using unchanged tb by (cases err) (simp_all add: process_record_def commit_def)
qed

theorem C1_change_trigger_isolation_witness:
  "select_row ''S1'' (main_table (init_state [row_S1] [])) = Some row_S1
   \<and> timeUpdated (row_S1\<lparr>timeUpdated := Some (DateTime ''2024-02-02T08:30:00''),
                          handover_date := Some (DateTime ''2024-06-01T00:00:00'')\<rparr>)
       \<noteq> timeUpdated row_S1
   \<and> main_table (process_record
        (ok_env, row_S1\<lparr>timeUpdated := Some (DateTime ''2024-02-02T08:30:00''),
                        handover_date := Some (DateTime ''2024-06-01T00:00:00'')\<rparr>)
        (init_state [row_S1] [])) = [row_S1]
   \<and> changes_log (process_record
        (ok_env, row_S1\<lparr>timeUpdated := Some (DateTime ''2024-02-02T08:30:00''),
                        handover_date := Some (DateTime ''2024-06-01T00:00:00'')\<rparr>)
        (init_state [row_S1] [])) = []"
  using C1_change_trigger_isolation
    [of "row_S1\<lparr>timeUpdated := Some (DateTime ''2024-02-02T08:30:00''),
                handover_date := Some (DateTime ''2024-06-01T00:00:00'')\<rparr>"
        "''S1''" "init_state [row_S1] []" row_S1 ok_env]
  by (simp add: row_S1_def init_state_def select_row_def)

section \<open>Update with archive\<close>

text \<open>
  C3. A record with a persisted row from which it differs in some comparable attribute,
  whose three statements (SELECT, INSERT into the history table, UPDATE) the store executes:
  exactly one row is appended to the history table, holding the persisted row as it was
  before the update; every main-table row with that system_id then equals the fetched
  record, that is, all eleven non-key columns (timeUpdated and handover_date among them)
  are overwritten; historical_count and rows_updated each grow by one.
\<close>

theorem C3_update_with_archive:
  assumes "system_id r = Some sid"
    and "select_row sid (main_table s) = Some x"
    and "\<not> (project_id r = project_id x \<and> name r = name x \<and> description r = description x \<and>
            building_id r = building_id x \<and> building r = building x \<and>
            discipline_id r = discipline_id x \<and> discipline r = discipline x \<and>
            checklist_id r = checklist_id x \<and> checklist_name r = checklist_name x)"
    and "\<not> fails e SelectMain" and "\<not> fails e InsertHistory" and "\<not> fails e UpdateMain"
  shows "history_table (process_record (e, r) s) = history_table s @ [x]
       \<and> main_table (process_record (e, r) s) =
           map (\<lambda>y. if system_id y = Some sid then r else y) (main_table s)
       \<and> historical_count (process_record (e, r) s) = historical_count s + 1
       \<and> rows_updated (process_record (e, r) s) = rows_updated s + 1
       \<and> rows_added (process_record (e, r) s) = rows_added s"
proof -
  have "changed r x"
    using assms(3) by (simp only: changed_iff) simp
  from try_body_update[OF assms(1,2) this assms(4,5,6)]
  show ?thesis
    by (simp add: process_record_def commit_def)
qed

theorem C3_update_with_archive_witness:
  "select_row ''S1'' (main_table (init_state [row_S1] [])) = Some row_S1
   \<and> history_table (process_record (ok_env, row_S1\<lparr>name := Some ''A2''\<rparr>) (init_state [row_S1] []))
       = [row_S1]
   \<and> main_table (process_record (ok_env, row_S1\<lparr>name := Some ''A2''\<rparr>) (init_state [row_S1] []))
       = [row_S1\<lparr>name := Some ''A2''\<rparr>]
   \<and> historical_count (process_record (ok_env, row_S1\<lparr>name := Some ''A2''\<rparr>) (init_state [row_S1] [])) = 1
   \<and> rows_updated (process_record (ok_env, row_S1\<lparr>name := Some ''A2''\<rparr>) (init_state [row_S1] [])) = 1"
proof -
  let ?r = "row_S1\<lparr>name := Some ''A2''\<rparr>" and ?s = "init_state [row_S1] []"
  have h1: "system_id ?r = Some ''S1''"
    by (simp add: row_S1_def)
  have h2: "select_row ''S1'' (main_table ?s) = Some row_S1"
    by (simp add: row_S1_def init_state_def select_row_def)
  have h3: "\<not> (project_id ?r = project_id row_S1 \<and> name ?r = name row_S1 \<and>
            description ?r = description row_S1 \<and>
            building_id ?r = building_id row_S1 \<and> building ?r = building row_S1 \<and>
            discipline_id ?r = discipline_id row_S1 \<and> discipline ?r = discipline row_S1 \<and>
            checklist_id ?r = checklist_id row_S1 \<and> checklist_name ?r = checklist_name row_S1)"
    by (simp add: row_S1_def)
  have h4: "\<not> fails ok_env SelectMain" and h5: "\<not> fails ok_env InsertHistory"
    and h6: "\<not> fails ok_env UpdateMain"
    by (simp_all add: fails_def ok_env_def)
  from C3_update_with_archive[OF h1 h2 h3 h4 h5 h6] h2 show ?thesis
    by (simp add: init_state_def row_S1_def)
qed

section \<open>Insert without diff\<close>

text \<open>
  C5. A record whose system_id is null, or whose system_id is not found in the main table,
  is inserted when the store executes the statements of that record (the SELECT, for a
  non-null id, and the INSERT): exactly one row, the record itself, is appended to the main
  table, the history table is untouched, rows_added grows by one, and exactly one entry is
  appended to the change log. The entry has the 25 CSV columns, the action \<open>insert\<close>,
  the subject \<open>None\<close> for a null system_id and the system_id otherwise, and the
  empty string in every old/new column.
\<close>

theorem C5_insert_without_diff:
  assumes "system_id r = None \<or> (\<exists>sid. system_id r = Some sid \<and> select_row sid (main_table s) = None)"
    and "\<not> fails e SelectMain" and "\<not> fails e InsertMain"
  shows "\<exists>entry.
           main_table (process_record (e, r) s) = main_table s @ [r]
         \<and> history_table (process_record (e, r) s) = history_table s
         \<and> changes_log (process_record (e, r) s) = changes_log s @ [entry]
         \<and> rows_added (process_record (e, r) s) = rows_added s + 1
         \<and> rows_updated (process_record (e, r) s) = rows_updated s
         \<and> historical_count (process_record (e, r) s) = historical_count s
         \<and> map fst entry = CSV_COLUMNS
         \<and> map_of entry ''timestamp'' = Some (now e)
         \<and> map_of entry ''action'' = Some ''insert''
         \<and> map_of entry ''system_id'' = Some (case system_id r of None \<Rightarrow> ''None'' | Some sid \<Rightarrow> sid)
         \<and> (\<forall>col \<in> set CSV_COLUMNS.
               col \<notin> {''timestamp'', ''action'', ''system_id''} \<longrightarrow> map_of entry col = Some '''')"
proof -
  let ?entry = "insert_entry (now e) (case system_id r of None \<Rightarrow> ''None'' | Some sid \<Rightarrow> sid)"
  have step: "process_record (e, r) s =
      commit (s\<lparr>main_table := main_table s @ [r], rows_added := rows_added s + 1,
                changes_log := changes_log s @ [?entry]\<rparr>)"
    by (simp add: process_record_def try_body_insert[OF assms])
  have cols: "map fst ?entry = CSV_COLUMNS"
    by (simp add: insert_entry_eq CSV_COLUMNS_def)
  have blank: "\<forall>col \<in> set CSV_COLUMNS.
      col \<notin> {''timestamp'', ''action'', ''system_id''} \<longrightarrow> map_of ?entry col = Some ''''"
    by (simp add: insert_entry_eq CSV_COLUMNS_def)
  have hd: "map_of ?entry ''timestamp'' = Some (now e) \<and> map_of ?entry ''action'' = Some ''insert''
      \<and> map_of ?entry ''system_id'' = Some (case system_id r of None \<Rightarrow> ''None'' | Some sid \<Rightarrow> sid)"
    by (simp add: insert_entry_eq)
  show ?thesis
    using cols blank hd by (intro exI[of _ ?entry]) (simp add: step commit_def)
qed

theorem C5_insert_without_diff_witness:
  "select_row ''S1'' (main_table (init_state [] [])) = None
   \<and> main_table (process_record (ok_env, row_S1) (init_state [] [])) = [row_S1]
   \<and> rows_added (process_record (ok_env, row_S1) (init_state [] [])) = 1
   \<and> length (changes_log (process_record (ok_env, row_S1) (init_state [] []))) = 1"
proof -
  have h1: "system_id row_S1 = None \<or>
      (\<exists>sid. system_id row_S1 = Some sid \<and> select_row sid (main_table (init_state [] [])) = None)"
    by (simp add: row_S1_def init_state_def select_row_def)
  have h2: "\<not> fails ok_env SelectMain" and h3: "\<not> fails ok_env InsertMain"
    by (simp_all add: fails_def ok_env_def)
  from C5_insert_without_diff[OF h1 h2 h3] show ?thesis
    by (elim exE conjE) (simp add: init_state_def select_row_def)
qed

section \<open>Counters and change log\<close>

text \<open>
  C9. At the end of every run of \<open>upsert_data\<close>, whatever the tables held, whatever the
  batch is and whichever statements failed, rows_added is the number of entries of the
  change log with action \<open>insert\<close> and rows_updated is the number of entries with action
  \<open>update\<close>.
\<close>

theorem C9_counts_match_log:
  "rows_added (upsert_data main_rows history_rows data) =
     count_action ''insert'' (changes_log (upsert_data main_rows history_rows data))
   \<and> rows_updated (upsert_data main_rows history_rows data) =
     count_action ''update'' (changes_log (upsert_data main_rows history_rows data))"
  unfolding upsert_data_def
  by (rule upsert_loop_counts) (simp_all add: init_state_def count_action_def)

theorem C9_counts_match_log_witness:
  "rows_added (upsert_data [row_S1] [] batch_failed_update) = 1
   \<and> count_action ''insert'' (changes_log (upsert_data [row_S1] [] batch_failed_update)) = 1
   \<and> rows_updated (upsert_data [row_S1] [] batch_failed_update) = 0
   \<and> count_action ''update'' (changes_log (upsert_data [row_S1] [] batch_failed_update)) = 0"
  using C9_counts_match_log[of "[row_S1]" "[]" batch_failed_update]
  by (simp add: run_failed_update)

section \<open>Completeness of update entries\<close>

text \<open>
  C6. Every entry with action \<open>update\<close> in the change log of a run is the complete update
  entry of a record of the batch and the row that the main table held for its system_id
  when the record was processed, that is, the row selected after the records before it in
  the batch: it carries that system_id as its subject and, for each of the eleven tracked
  fields (the nine comparable attributes, timeUpdated and handover_date), the old value of
  that row and the new value of the record, a null value being the empty string, whether
  or not the field changed.
\<close>

theorem C6_update_log_completeness:
  assumes "entry \<in> set (changes_log (upsert_data main_rows history_rows data))"
    and "map_of entry ''action'' = Some ''update''"
  shows "\<exists>pre e r post sid x.
           data = pre @ (e, r) # post \<and> system_id r = Some sid
         \<and> select_row sid (main_table (upsert_data main_rows history_rows pre)) = Some x
         \<and> update_entry_of e r x entry"
  using upsert_loop_update_entries[of "[]" "init_state main_rows history_rows" data] assms
  by (simp add: upsert_data_def init_state_def)

theorem C6_update_log_completeness_witness:
  "changes_log (upsert_data [row_S1] [] batch_update) =
     [snd (compare_records ''2024-03-01T12:00:00'' ''S1'' (row_S1\<lparr>name := Some ''A2''\<rparr>) row_S1)]
   \<and> map_of (snd (compare_records ''2024-03-01T12:00:00'' ''S1''
                (row_S1\<lparr>name := Some ''A2''\<rparr>) row_S1)) ''old_name'' = Some ''A''
   \<and> map_of (snd (compare_records ''2024-03-01T12:00:00'' ''S1''
                (row_S1\<lparr>name := Some ''A2''\<rparr>) row_S1)) ''new_name'' = Some ''A2''
   \<and> (\<exists>pre e r post sid x.
         batch_update = pre @ (e, r) # post \<and> system_id r = Some sid
       \<and> select_row sid (main_table (upsert_data [row_S1] [] pre)) = Some x
       \<and> update_entry_of e r x
            (snd (compare_records ''2024-03-01T12:00:00'' ''S1''
               (row_S1\<lparr>name := Some ''A2''\<rparr>) row_S1)))"
proof -
  let ?entry = "snd (compare_records ''2024-03-01T12:00:00'' ''S1''
                  (row_S1\<lparr>name := Some ''A2''\<rparr>) row_S1)"
  have h1: "?entry \<in> set (changes_log (upsert_data [row_S1] [] batch_update))"
    by (simp add: run_update)
  have h2: "map_of ?entry ''action'' = Some ''update''"
    by (rule compare_records_action)
  have vals: "map_of ?entry ''old_name'' = Some ''A'' \<and> map_of ?entry ''new_name'' = Some ''A2''"
    by (simp add: compare_records_snd row_S1_def str_or_empty_def)
  have log: "changes_log (upsert_data [row_S1] [] batch_update) = [?entry]"
    by (simp add: run_update)
  from C6_update_log_completeness[OF h1 h2] vals log show ?thesis
    by blast
qed

section \<open>A failure between the archive and the update\<close>

text \<open>
  C4. The main table holds S1; the batch is a changed record for S1 whose UPDATE statement
  raises after its INSERT into the history table was executed, followed by a new record S2
  that is processed without error. One record of two succeeded (an insert), yet
  historical_count is 1: the failed record was counted as archived. Its history row stays
  pending, is committed together with S2, and the main row of S1 keeps its old values.
\<close>

theorem C4_failed_update_is_counted_as_archived:
  "rows_added (upsert_data [row_S1] [] batch_failed_update) = 1
   \<and> rows_updated (upsert_data [row_S1] [] batch_failed_update) = 0
   \<and> historical_count (upsert_data [row_S1] [] batch_failed_update) = 1
   \<and> committed_history (upsert_data [row_S1] [] batch_failed_update) = [row_S1]
   \<and> committed_main (upsert_data [row_S1] [] batch_failed_update) = [row_S1, row_S2]"
  by (simp add: run_failed_update)

section \<open>Idempotence\<close>

text \<open>
  C2 as stated fails: a record without system_id is inserted on every run, so reconciling
  the output of a run against the same batch adds the row again.
\<close>

theorem C2_rerun_inserts_again:
  "main_table (upsert_data [] [] [(ok_env, row_no_id)]) = [row_no_id]
   \<and> same_comparable row_no_id row_no_id
   \<and> rows_added (upsert_data [row_no_id] [] [(ok_env, row_no_id)]) = 1
   \<and> main_table (upsert_data [row_no_id] [] [(ok_env, row_no_id)]) = [row_no_id, row_no_id]
   \<and> length (changes_log (upsert_data [row_no_id] [] [(ok_env, row_no_id)])) = 1"
  by (simp add: run_defs row_no_id_def ok_env_def same_comparable_def)

text \<open>
  C2, amended. When every record of the batch has a non-null system_id for which the main
  table holds a row, and agrees with the row the SELECT returns on the nine comparable
  attributes, the run makes no insert and no update, archives nothing and logs nothing,
  and leaves both tables as they were, whichever statements fail.
\<close>

theorem C2_idempotence_identified:
  assumes "\<forall>(e, r) \<in> set data. \<exists>sid x. system_id r = Some sid
             \<and> select_row sid main_rows = Some x \<and> same_comparable r x"
  shows "rows_added (upsert_data main_rows history_rows data) = 0
       \<and> rows_updated (upsert_data main_rows history_rows data) = 0
       \<and> historical_count (upsert_data main_rows history_rows data) = 0
       \<and> changes_log (upsert_data main_rows history_rows data) = []
       \<and> main_table (upsert_data main_rows history_rows data) = main_rows
       \<and> history_table (upsert_data main_rows history_rows data) = history_rows"
  using upsert_loop_noop[of data "init_state main_rows history_rows"] assms
  by (simp add: upsert_data_def init_state_def)

theorem C2_idempotence_identified_witness:
  "rows_added (upsert_data [row_S1, row_S2] []
      [(ok_env, row_S1), (update_fails_env, row_S2\<lparr>timeUpdated := None\<rparr>)]) = 0
   \<and> changes_log (upsert_data [row_S1, row_S2] []
      [(ok_env, row_S1), (update_fails_env, row_S2\<lparr>timeUpdated := None\<rparr>)]) = []
   \<and> main_table (upsert_data [row_S1, row_S2] []
      [(ok_env, row_S1), (update_fails_env, row_S2\<lparr>timeUpdated := None\<rparr>)]) = [row_S1, row_S2]"
proof -
  have h: "\<forall>(e, r) \<in> set [(ok_env, row_S1), (update_fails_env, row_S2\<lparr>timeUpdated := None\<rparr>)].
      \<exists>sid x. system_id r = Some sid
        \<and> select_row sid [row_S1, row_S2] = Some x \<and> same_comparable r x"
    by (simp add: select_row_def same_comparable_def row_S1_def row_S2_def)
  from C2_idempotence_identified[OF h, of "[]"] show ?thesis
    by simp
qed

section \<open>Configuration check\<close>

text \<open>
  C8 as stated fails: the check covers four of the six variables. With no user and no
  password in the environment the module does not raise; \<open>main\<close> runs, asks for the
  project list and fetches the systems of the selected project.
\<close>

theorem C8_missing_login_does_not_abort:
  "environ_no_login ''UNAME'' = None \<and> environ_no_login ''PASS'' = None
   \<and> program environ_no_login world_two_projects =
       (None, [GetProjectList, FetchSystems ''101'', ConnectDb], None, None)"
  by (simp add: environ_no_login_def program_def missing_environment_def py_not_def
        SQL_SERVER_CONFIG_def main_def world_two_projects_def select_project_ids_def
        row_S1_def Let_def)

text \<open>
  C8, amended. When the API identifier, the secret, the store host or the database name is
  unset or empty, the program raises ValueError before any call to the API or the store:
  no event is recorded and the tables are untouched.
\<close>

theorem C8_checked_variable_missing_aborts:
  assumes "environ ''IDENTIFIER'' \<in> {None, Some ''''} \<or> environ ''SECRET'' \<in> {None, Some ''''}
         \<or> environ ''SNAME'' \<in> {None, Some ''''} \<or> environ ''DBASE'' \<in> {None, Some ''''}"
  shows "program environ w =
           (Some (ValueError ''Missing environment variables''), [], db_main w, db_history w)"
  using assms
  by (auto simp: program_def missing_environment_def py_not_def SQL_SERVER_CONFIG_def)

theorem C8_checked_variable_missing_aborts_witness:
  "(environ_no_login(''DBASE'' := None)) ''DBASE'' = None
   \<and> program (environ_no_login(''DBASE'' := None)) world_two_projects =
       (Some (ValueError ''Missing environment variables''), [], None, None)"
proof -
  have h: "(environ_no_login(''DBASE'' := None)) ''IDENTIFIER'' \<in> {None, Some ''''}
         \<or> (environ_no_login(''DBASE'' := None)) ''SECRET'' \<in> {None, Some ''''}
         \<or> (environ_no_login(''DBASE'' := None)) ''SNAME'' \<in> {None, Some ''''}
         \<or> (environ_no_login(''DBASE'' := None)) ''DBASE'' \<in> {None, Some ''''}"
    by simp
  from C8_checked_variable_missing_aborts[OF h, of world_two_projects] show ?thesis
    by (simp add: world_two_projects_def fun_upd_def)
qed

section \<open>Project filter\<close>

text \<open>
  C10. In every run of \<open>main\<close>, the systems of a project id are fetched exactly when
  some project of the list has that id and a name containing GFTX, and the batch handed to
  \<open>upsert_data\<close> is the concatenation of what was fetched for those ids: a project whose
  name lacks the substring is neither fetched nor reconciled.
\<close>

theorem C10_only_GFTX_projects:
  "(FetchSystems pid \<in> set (fst (main w)) \<longleftrightarrow>
      (\<exists>proj \<in> set (project_list w).
          p_project_id proj = pid \<and> (\<exists>ps ss. p_name proj = ps @ ''GFTX'' @ ss)))
   \<and> (Upsert data \<in> set (fst (main w)) \<longrightarrow>
        data = concat (map (systems_of w)
                 (map p_project_id
                    (filter (\<lambda>proj. \<exists>ps ss. p_name proj = ps @ ''GFTX'' @ ss) (project_list w)))))"
proof -
  have sel: "\<And>pid. pid \<in> set (select_project_ids (project_list w)) \<longleftrightarrow>
      (\<exists>proj \<in> set (project_list w).
          p_project_id proj = pid \<and> (\<exists>ps ss. p_name proj = ps @ ''GFTX'' @ ss))"
    by (rule select_project_ids_iff)
  have fetch: "FetchSystems pid \<in> set (fst (main w)) \<longleftrightarrow>
      pid \<in> set (select_project_ids (project_list w))"
    by (auto simp: main_def Let_def select_project_ids_def)
  have ups: "Upsert data \<in> set (fst (main w)) \<longrightarrow>
      data = concat (map (systems_of w) (select_project_ids (project_list w)))"
    by (auto simp: main_def Let_def)
  show ?thesis
    unfolding select_project_ids_eq[symmetric] select_project_ids_iff[symmetric]
    using fetch ups by blast
qed

theorem C10_only_GFTX_projects_witness:
  "FetchSystems ''101'' \<in> set (fst (main world_two_projects))
   \<and> FetchSystems ''202'' \<notin> set (fst (main world_two_projects))"
proof -
  have a0: "\<exists>ps ss. ''GFTX Austin'' = ps @ ''GFTX'' @ ss"
    using contains_iff[of "''GFTX''" "''GFTX Austin''"] by simp
  have b0: "\<not> (\<exists>ps ss. ''Berlin'' = ps @ ''GFTX'' @ ss)"
    using contains_iff[of "''GFTX''" "''Berlin''"] by simp
  have a: "\<exists>proj \<in> set (project_list world_two_projects).
      p_project_id proj = ''101'' \<and> (\<exists>ps ss. p_name proj = ps @ ''GFTX'' @ ss)"
    using a0 by (simp add: world_two_projects_def)
  have b: "\<not> (\<exists>proj \<in> set (project_list world_two_projects).
      p_project_id proj = ''202'' \<and> (\<exists>ps ss. p_name proj = ps @ ''GFTX'' @ ss))"
    using b0 by (simp add: world_two_projects_def)
  from C10_only_GFTX_projects[of "''101''" world_two_projects "[]"]
       C10_only_GFTX_projects[of "''202''" world_two_projects "[]"] a b
  show ?thesis by blast
qed

section \<open>Order of the batch\<close>




end
